theory Spec2Isabelle
  imports Complex_Main
begin

section \<open>Tensor elements\<close>

text \<open>
  The layer of \<^verbatim>\<open>fla/layers/hgrn.py\<close> computes on torch tensors. An element is
  modelled as an exact real number or one of the three special values torch produces
  (\<^verbatim>\<open>log(0) = -inf\<close>, \<^verbatim>\<open>log(-1) = nan\<close>). Rounding and signed zeros are not modelled:
  arithmetic on finite values is exact. The theorems below say which operations the
  layer applies to which tensors; none of them states a bound on a computed value.
\<close>

datatype fl = NaN | NInf | Fin real | PInf

fun fl_neg :: "fl \<Rightarrow> fl" where
  "fl_neg NaN = NaN"
| "fl_neg NInf = PInf"
| "fl_neg (Fin x) = Fin (- x)"
| "fl_neg PInf = NInf"

fun fl_add :: "fl \<Rightarrow> fl \<Rightarrow> fl" where
  "fl_add NaN _ = NaN"
| "fl_add _ NaN = NaN"
| "fl_add NInf PInf = NaN"
| "fl_add PInf NInf = NaN"
| "fl_add NInf _ = NInf"
| "fl_add _ NInf = NInf"
| "fl_add PInf _ = PInf"
| "fl_add _ PInf = PInf"
| "fl_add (Fin x) (Fin y) = Fin (x + y)"

definition fl_sub :: "fl \<Rightarrow> fl \<Rightarrow> fl" where
  "fl_sub a b = fl_add a (fl_neg b)"

text \<open>The sign of a product with an infinity; zero times infinity is nan.\<close>

definition inf_times :: "bool \<Rightarrow> real \<Rightarrow> fl" where
  "inf_times positive x =
     (if x = 0 then NaN else if (0 < x) = positive then PInf else NInf)"

fun fl_mul :: "fl \<Rightarrow> fl \<Rightarrow> fl" where
  "fl_mul NaN _ = NaN"
| "fl_mul _ NaN = NaN"
| "fl_mul (Fin x) (Fin y) = Fin (x * y)"
| "fl_mul (Fin x) PInf = inf_times True x"
| "fl_mul (Fin x) NInf = inf_times False x"
| "fl_mul PInf (Fin y) = inf_times True y"
| "fl_mul NInf (Fin y) = inf_times False y"
| "fl_mul PInf PInf = PInf"
| "fl_mul NInf NInf = PInf"
| "fl_mul PInf NInf = NInf"
| "fl_mul NInf PInf = NInf"

fun fl_exp :: "fl \<Rightarrow> fl" where
  "fl_exp NaN = NaN"
| "fl_exp NInf = Fin 0"
| "fl_exp (Fin x) = Fin (exp x)"
| "fl_exp PInf = PInf"

fun fl_log :: "fl \<Rightarrow> fl" where
  "fl_log NaN = NaN"
| "fl_log NInf = NaN"
| "fl_log (Fin x) = (if x < 0 then NaN else if x = 0 then NInf else Fin (ln x))"
| "fl_log PInf = PInf"

text \<open>\<^verbatim>\<open>torch.log1p(x)\<close> is \<^verbatim>\<open>log(1 + x)\<close>.\<close>

definition fl_log1p :: "fl \<Rightarrow> fl" where
  "fl_log1p a = fl_log (fl_add (Fin 1) a)"

text \<open>
  \<^verbatim>\<open>F.logsigmoid(x)\<close> is \<^verbatim>\<open>log(1 / (1 + exp(-x)))\<close>. The value here is the exact
  one; torch returns it rounded to the tensor's type (in float32,
  \<^verbatim>\<open>logsigmoid(200.)\<close> is \<^verbatim>\<open>0.0\<close> and \<^verbatim>\<open>exp(-200.)\<close> is \<^verbatim>\<open>0.0\<close>). The same holds
  of \<open>fl_exp\<close>, \<open>fl_log\<close>, \<open>fl_log1p\<close> and \<open>fl_logaddexp\<close>.
\<close>

fun fl_logsigmoid :: "fl \<Rightarrow> fl" where
  "fl_logsigmoid NaN = NaN"
| "fl_logsigmoid NInf = NInf"
| "fl_logsigmoid (Fin x) = Fin (- ln (1 + exp (- x)))"
| "fl_logsigmoid PInf = Fin 0"

text \<open>\<^verbatim>\<open>torch.logaddexp(a, b)\<close> is \<^verbatim>\<open>log(exp(a) + exp(b))\<close>.\<close>

fun fl_logaddexp :: "fl \<Rightarrow> fl \<Rightarrow> fl" where
  "fl_logaddexp NaN _ = NaN"
| "fl_logaddexp _ NaN = NaN"
| "fl_logaddexp PInf _ = PInf"
| "fl_logaddexp _ PInf = PInf"
| "fl_logaddexp NInf b = b"
| "fl_logaddexp a NInf = a"
| "fl_logaddexp (Fin x) (Fin y) = Fin (ln (exp x + exp y))"

section \<open>Tensors, shapes and broadcasting\<close>

text \<open>
  The tensors the layer computes on have three dimensions (batch, time, channels),
  as the comments and the mask handling of \<^verbatim>\<open>forward\<close> say. A tensor is its
  shape and the element at each index.
\<close>

record tensor =
  nb :: nat
  nt :: nat
  nc :: nat
  el :: "nat \<Rightarrow> nat \<Rightarrow> nat \<Rightarrow> fl"

definition shape :: "tensor \<Rightarrow> nat list" where
  "shape x = [nb x, nt x, nc x]"

text \<open>
  \<^verbatim>\<open>x.shape[k]\<close> with Python's negative indices. The source only uses the constant
  indices \<^verbatim>\<open>1\<close>, \<^verbatim>\<open>2\<close> and \<^verbatim>\<open>-2\<close>, all in range for three dimensions.
\<close>

definition dim :: "tensor \<Rightarrow> int \<Rightarrow> nat" where
  "dim x k = shape x ! nat (if k < 0 then 3 + k else k)"

definition tmap :: "(fl \<Rightarrow> fl) \<Rightarrow> tensor \<Rightarrow> tensor" where
  "tmap h x = x\<lparr>el := \<lambda>b t c. h (el x b t c)\<rparr>"

datatype error =
    AssertionError string
  | NotImplementedError string
  | TypeError
  | RuntimeError
  | IndexError

text \<open>torch broadcasting of one dimension: equal sizes, or one of them is 1.\<close>

definition bdim :: "nat \<Rightarrow> nat \<Rightarrow> nat option" where
  "bdim a b = (if a = b then Some a else if a = 1 then Some b
               else if b = 1 then Some a else None)"

definition bix :: "nat \<Rightarrow> nat \<Rightarrow> nat" where
  "bix n i = (if n = 1 then 0 else i)"

definition bcast2 :: "(fl \<Rightarrow> fl \<Rightarrow> fl) \<Rightarrow> tensor \<Rightarrow> tensor \<Rightarrow> error + tensor" where
  "bcast2 h x y =
     (case (bdim (nb x) (nb y), bdim (nt x) (nt y), bdim (nc x) (nc y)) of
        (Some B, Some T, Some C) \<Rightarrow>
          Inr \<lparr>nb = B, nt = T, nc = C,
               el = \<lambda>b t c. h (el x (bix (nb x) b) (bix (nt x) t) (bix (nc x) c))
                               (el y (bix (nb y) b) (bix (nt y) t) (bix (nc y) c))\<rparr>
      | _ \<Rightarrow> Inl RuntimeError)"

text \<open>
  The padding mask may have any number of dimensions; \<^verbatim>\<open>forward\<close> asserts that
  there are two.
\<close>

record mask =
  mshape :: "nat list"
  mel :: "nat list \<Rightarrow> fl"

text \<open>
  \<^verbatim>\<open>attention_mask[:, -n:]\<close> on a two-dimensional mask: the last \<open>n\<close> columns, all
  columns when there are fewer, and all columns when \<open>n = 0\<close> (\<^verbatim>\<open>-0\<close> is \<^verbatim>\<open>0\<close>).
\<close>

definition trim_mask :: "mask \<Rightarrow> nat \<Rightarrow> mask" where
  "trim_mask m n =
     (case mshape m of
        [bm, s] \<Rightarrow>
          (let start = (if n = 0 then 0 else s - n)
           in \<lparr>mshape = [bm, s - start],
               mel = \<lambda>ix. mel m [ix ! 0, start + ix ! 1]\<rparr>)
      | _ \<Rightarrow> m)"

text \<open>
  \<^verbatim>\<open>i.mul_(m[:, :, None])\<close>: in place, so the mask must broadcast to the shape of
  \<open>i\<close>; torch raises a RuntimeError otherwise.
\<close>

definition mul_mask :: "tensor \<Rightarrow> mask \<Rightarrow> error + tensor" where
  "mul_mask i m =
     (case mshape m of
        [bm, s] \<Rightarrow>
          (if (bm = nb i \<or> bm = 1) \<and> (s = nt i \<or> s = 1)
           then Inr (i\<lparr>el := \<lambda>b t c. fl_mul (el i b t c) (mel m [bix bm b, bix s t])\<rparr>)
           else Inl RuntimeError)
      | _ \<Rightarrow> Inl RuntimeError)"

section \<open>The layer and its collaborators\<close>

text \<open>
  The submodules of the layer with their constructor arguments, and the attributes
  \<^verbatim>\<open>__init__\<close> sets. \<^verbatim>\<open>hidden_size\<close> and \<^verbatim>\<open>expand_ratio\<close> are integers;
  \<^verbatim>\<open>layer_idx\<close> may be \<^verbatim>\<open>None\<close>, its default. \<open>children\<close> lists the submodules in
  the order they are registered, as \<^verbatim>\<open>self.children()\<close> yields them.
\<close>

datatype module =
    Linear int int
  | ShortConvolution int int bool
  | FusedRMSNormGated int "bool option" real

record layer =
  mode :: string
  hidden_size :: int
  expand_ratio :: int
  input_dim :: int
  use_short_conv :: bool
  conv_size :: int
  conv_bias :: bool
  layer_idx :: "int option"
  training :: bool
  children :: "(string \<times> module) list"

text \<open>
  \<^verbatim>\<open>HGRNAttention.__init__\<close>. The attributes are set in the order of the source; the
  assertion on the mode comes before any submodule is built. A new \<^verbatim>\<open>nn.Module\<close>
  is in training mode.
\<close>

definition HGRNAttention_init ::
  "string \<Rightarrow> int \<Rightarrow> int \<Rightarrow> bool \<Rightarrow> int \<Rightarrow> bool \<Rightarrow> bool option \<Rightarrow> real \<Rightarrow> int option
   \<Rightarrow> error + layer" where
  "HGRNAttention_init md hs er usc cs cb ea eps li =
     (let idim = hs * er in
      if md \<notin> set [''chunk'', ''fused_recurrent'']
      then Inl (AssertionError (''Not supported mode `'' @ md @ ''`.''))
      else Inr \<lparr>mode = md, hidden_size = hs, expand_ratio = er, input_dim = idim,
                use_short_conv = usc, conv_size = cs, conv_bias = cb, layer_idx = li,
                training = True,
                children =
                  [(''i_proj'', Linear hs idim),
                   (''f_proj'', Linear hs idim),
                   (''g_proj'', Linear hs idim)]
                  @ (if usc
                     then [(''f_conv1d'', ShortConvolution idim cs cb),
                           (''i_conv1d'', ShortConvolution idim cs cb)]
                     else [])
                  @ [(''g_norm'', FusedRMSNormGated idim ea eps),
                     (''o_proj'', Linear idim hs)]\<rparr>)"


text \<open>An entry of the cache, one per layer, and the arguments of a cache update.\<close>

record ('r, 'v) layer_state =
  recurrent_state :: "'r option"
  conv_state :: "('v option \<times> 'v option) option"

record ('r, 'v) update_call =
  u_recurrent_state :: "'r option"
  u_conv_state :: "('v option \<times> 'v option) option"
  u_layer_idx :: "int option"
  u_offset :: nat

text \<open>
  What \<^verbatim>\<open>forward\<close> calls and this file does not define: the learned submodules
  (\<^verbatim>\<open>nn.Linear\<close>, \<^verbatim>\<open>ShortConvolution\<close>, \<^verbatim>\<open>FusedRMSNormGated\<close>), the imported
  functions \<^verbatim>\<open>swiglu\<close>, \<^verbatim>\<open>chunk_hgrn\<close> and \<^verbatim>\<open>fused_recurrent_hgrn\<close>, and the methods of
  the \<^verbatim>\<open>Cache\<close> class. They are parameters: \<open>'c\<close> is the cache, \<open>'r\<close> a recurrent
  state and \<open>'v\<close> a convolution state.
\<close>

type_synonym 'v conv_fn =
  "tensor \<Rightarrow> mask option \<Rightarrow> 'v option \<Rightarrow> bool \<Rightarrow> int list option \<Rightarrow> tensor \<times> 'v option"

record ('c, 'r, 'v) env =
  i_proj :: "tensor \<Rightarrow> tensor"
  f_proj :: "tensor \<Rightarrow> tensor"
  g_proj :: "tensor \<Rightarrow> tensor"
  o_proj :: "tensor \<Rightarrow> tensor"
  i_conv1d :: "'v conv_fn"
  f_conv1d :: "'v conv_fn"
  g_norm :: "tensor \<Rightarrow> tensor \<Rightarrow> tensor"
  swiglu :: "tensor \<Rightarrow> tensor \<Rightarrow> tensor"
  chunk_hgrn :: "tensor \<Rightarrow> tensor \<Rightarrow> 'r option \<Rightarrow> bool \<Rightarrow> tensor \<times> 'r option"
  fused_recurrent_hgrn ::
    "tensor \<Rightarrow> tensor \<Rightarrow> 'r option \<Rightarrow> bool \<Rightarrow> int list option \<Rightarrow> tensor \<times> 'r option"
  cache_len :: "'c \<Rightarrow> int"
  cache_getitem :: "'c \<Rightarrow> int \<Rightarrow> error + ('r, 'v) layer_state"
  cache_update :: "'c \<Rightarrow> ('r, 'v) update_call \<Rightarrow> 'c"

section \<open>The forward pass\<close>

text \<open>Lines 89 to 94: a mask, when given, has exactly two dimensions.\<close>

definition mask_message :: string where
  "mask_message =
     ''Expected attention_mask as a 0-1 matrix with shape [batch_size, seq_len] ''
     @ ''for padding purposes (0 indicating padding). ''
     @ ''Arbitrary attention masks of shape [batch_size, seq_len, seq_len] ''
     @ ''are not allowed.''"

definition check_mask :: "mask option \<Rightarrow> error + unit" where
  "check_mask attention_mask =
     (case attention_mask of
        None \<Rightarrow> Inr ()
      | Some m \<Rightarrow>
          if length (mshape m) = 2 then Inr ()
          else Inl (AssertionError mask_message))"

text \<open>Line 97: the mode the call runs in.\<close>

definition select_mode :: "layer \<Rightarrow> tensor \<Rightarrow> string" where
  "select_mode self hidden_states =
     (if \<not> training self \<and> dim hidden_states 1 \<le> 64
      then ''fused_recurrent'' else mode self)"

text \<open>
  Lines 99 to 101. Comparing the length of the cache with a \<^verbatim>\<open>layer_idx\<close> that is
  \<^verbatim>\<open>None\<close> (the default) raises a TypeError.
\<close>

definition read_last_state ::
  "('c, 'r, 'v) env \<Rightarrow> layer \<Rightarrow> 'c option \<Rightarrow> error + ('r, 'v) layer_state option" where
  "read_last_state env self past_key_values =
     (case past_key_values of
        None \<Rightarrow> Inr None
      | Some cache \<Rightarrow>
          (case layer_idx self of
             None \<Rightarrow> Inl TypeError
           | Some k \<Rightarrow>
               if cache_len env cache > k
               then (case cache_getitem env cache k of
                       Inl e \<Rightarrow> Inl e
                     | Inr st \<Rightarrow> Inr (Some st))
               else Inr None))"

text \<open>
  Lines 104 to 125: the input and forget branches, through the short convolutions
  when they are enabled. Unpacking a \<^verbatim>\<open>conv_state\<close> that is \<^verbatim>\<open>None\<close> raises a
  TypeError. Without the convolutions the two convolution states are never read;
  they are \<open>None\<close> here.
\<close>

definition branches ::
  "('c, 'r, 'v) env \<Rightarrow> layer \<Rightarrow> tensor \<Rightarrow> mask option \<Rightarrow> ('r, 'v) layer_state option
   \<Rightarrow> bool \<Rightarrow> int list option \<Rightarrow> error + (tensor \<times> 'v option \<times> tensor \<times> 'v option)" where
  "branches env self hidden_states attention_mask last_state use_cache cu_seqlens =
     (if use_short_conv self
      then
        (case (case last_state of
                 None \<Rightarrow> Inr (None, None)
               | Some st \<Rightarrow>
                   (case conv_state st of None \<Rightarrow> Inl TypeError | Some p \<Rightarrow> Inr p)) of
           Inl e \<Rightarrow> Inl e
         | Inr (conv_state_i, conv_state_f) \<Rightarrow>
             (let conv_mask =
                    map_option (\<lambda>m. trim_mask m (dim hidden_states 1)) attention_mask;
                  (i, conv_state_i') =
                    i_conv1d env (i_proj env hidden_states) conv_mask conv_state_i
                      use_cache cu_seqlens;
                  (f, conv_state_f') =
                    f_conv1d env (f_proj env hidden_states) conv_mask conv_state_f
                      use_cache cu_seqlens
              in Inr (i, conv_state_i', f, conv_state_f')))
      else Inr (i_proj env hidden_states, None, f_proj env hidden_states, None))"

text \<open>
  Lines 127 to 130: the log-decay. The floor is applied when a lower bound is given
  and the layer index is greater than 0; the comparison raises a TypeError when the
  layer index is \<^verbatim>\<open>None\<close>. The lower bound is given with three dimensions, those of
  size 1 being broadcast.
\<close>

definition compose_gate :: "tensor option \<Rightarrow> int option \<Rightarrow> tensor \<Rightarrow> error + tensor" where
  "compose_gate lower_bound idx f_raw =
     (let f = tmap fl_logsigmoid f_raw in
      case lower_bound of
        None \<Rightarrow> Inr f
      | Some lb \<Rightarrow>
          (case idx of
             None \<Rightarrow> Inl TypeError
           | Some k \<Rightarrow>
               if k > 0
               then (case bcast2 fl_add (tmap fl_log1p (tmap fl_neg lb)) f of
                       Inl e \<Rightarrow> Inl e
                     | Inr s \<Rightarrow> bcast2 fl_logaddexp (tmap fl_log lb) s)
               else Inr f))"

text \<open>Line 131: \<^verbatim>\<open>i = swiglu(i, 1 - f.exp())\<close>.\<close>

definition activate :: "('c, 'r, 'v) env \<Rightarrow> tensor \<Rightarrow> tensor \<Rightarrow> tensor" where
  "activate env i f = swiglu env i (tmap (\<lambda>v. fl_sub (Fin 1) (fl_exp v)) f)"

text \<open>Lines 133 to 135: \<^verbatim>\<open>i = i.mul_(attention_mask[:, -i.shape[-2]:, None])\<close>.\<close>

definition apply_padding :: "mask option \<Rightarrow> tensor \<Rightarrow> error + tensor" where
  "apply_padding attention_mask i =
     (case attention_mask of
        None \<Rightarrow> Inr i
      | Some m \<Rightarrow> mul_mask i (trim_mask m (dim i (- 2))))"

text \<open>
  Lines 89 to 135 together. The record holds the local variables of the call: the
  mode, the previous state of the layer, the two convolution states, the branches
  \<open>i\<close> and \<open>f\<close> as line 125 leaves them (\<open>l_i_raw\<close>, \<open>l_f_raw\<close>), the log-decay
  \<open>f\<close> after line 130 and the input \<open>i\<close> after line 135, as the kernel receives them.
\<close>

record ('r, 'v) locals =
  l_mode :: string
  l_last_state :: "('r, 'v) layer_state option"
  l_conv_state_i :: "'v option"
  l_conv_state_f :: "'v option"
  l_i_raw :: tensor
  l_f_raw :: tensor
  l_f :: tensor
  l_i :: tensor

definition pre_kernel ::
  "('c, 'r, 'v) env \<Rightarrow> layer \<Rightarrow> tensor \<Rightarrow> mask option \<Rightarrow> 'c option \<Rightarrow> bool
   \<Rightarrow> tensor option \<Rightarrow> int list option \<Rightarrow> error + ('r, 'v) locals" where
  "pre_kernel env self hidden_states attention_mask past_key_values use_cache
     lower_bound cu_seqlens =
     (case check_mask attention_mask of
        Inl e \<Rightarrow> Inl e
      | Inr _ \<Rightarrow>
     (case read_last_state env self past_key_values of
        Inl e \<Rightarrow> Inl e
      | Inr last_state \<Rightarrow>
     (case branches env self hidden_states attention_mask last_state use_cache
             cu_seqlens of
        Inl e \<Rightarrow> Inl e
      | Inr (i_raw, conv_state_i, f_raw, conv_state_f) \<Rightarrow>
     (case compose_gate lower_bound (layer_idx self) f_raw of
        Inl e \<Rightarrow> Inl e
      | Inr f \<Rightarrow>
     (case apply_padding attention_mask (activate env i_raw f) of
        Inl e \<Rightarrow> Inl e
      | Inr i \<Rightarrow>
          Inr \<lparr>l_mode = select_mode self hidden_states, l_last_state = last_state,
               l_conv_state_i = conv_state_i, l_conv_state_f = conv_state_f,
               l_i_raw = i_raw, l_f_raw = f_raw, l_f = f, l_i = i\<rparr>)))))"

text \<open>
  Lines 137 to 156: the recurrence kernel of the selected mode. The call made is
  kept beside its results.
\<close>

record 'r kernel_call =
  k_name :: string
  k_x :: tensor
  k_g :: tensor
  k_initial_state :: "'r option"
  k_output_final_state :: bool
  k_cu_seqlens :: "int list option"

definition run_kernel ::
  "('c, 'r, 'v) env \<Rightarrow> ('r, 'v) locals \<Rightarrow> bool \<Rightarrow> int list option
   \<Rightarrow> error + (tensor \<times> 'r option \<times> 'r kernel_call)" where
  "run_kernel env loc use_cache cu_seqlens =
     (let rs = (case l_last_state loc of None \<Rightarrow> None | Some st \<Rightarrow> recurrent_state st)
      in
      if l_mode loc = ''chunk'' then
        (if cu_seqlens \<noteq> None
         then Inl (NotImplementedError
                ''Chunk mode does not support variable-length sequences.'')
         else (let (o_seq, rs') = chunk_hgrn env (l_i loc) (l_f loc) rs use_cache
               in Inr (o_seq, rs',
                       \<lparr>k_name = ''chunk'', k_x = l_i loc, k_g = l_f loc,
                        k_initial_state = rs, k_output_final_state = use_cache,
                        k_cu_seqlens = None\<rparr>)))
      else if l_mode loc = ''fused_recurrent'' then
        (let (o_seq, rs') =
               fused_recurrent_hgrn env (l_i loc) (l_f loc) rs use_cache cu_seqlens
         in Inr (o_seq, rs',
                 \<lparr>k_name = ''fused_recurrent'', k_x = l_i loc, k_g = l_f loc,
                  k_initial_state = rs, k_output_final_state = use_cache,
                  k_cu_seqlens = cu_seqlens\<rparr>))
      else Inl (NotImplementedError (''Not supported mode `'' @ l_mode loc @ ''`.'')))"

text \<open>Lines 158 to 164: the arguments of \<^verbatim>\<open>past_key_values.update\<close>.\<close>

definition update_args ::
  "layer \<Rightarrow> ('r, 'v) locals \<Rightarrow> 'r option \<Rightarrow> ('r, 'v) update_call" where
  "update_args self loc rs =
     \<lparr>u_recurrent_state = rs,
      u_conv_state = (if use_short_conv self
                      then Some (l_conv_state_i loc, l_conv_state_f loc) else None),
      u_layer_idx = layer_idx self,
      u_offset = dim (l_i loc) 2\<rparr>"

text \<open>
  \<^verbatim>\<open>HGRNAttention.forward\<close>. The result is the outcome of the call (an exception, or
  the returned output with the kernel call and the cache update that were made) and
  the cache object as the call leaves it. The cache is only written by the update of
  lines 158 to 164, after every \<^verbatim>\<open>raise\<close> of the function.
\<close>

record ('r, 'v) fwd_result =
  r_output :: tensor
  r_kernel :: "'r kernel_call"
  r_cache_write :: "('r, 'v) update_call option"

definition forward ::
  "('c, 'r, 'v) env \<Rightarrow> layer \<Rightarrow> tensor \<Rightarrow> mask option \<Rightarrow> 'c option \<Rightarrow> bool
   \<Rightarrow> tensor option \<Rightarrow> int list option \<Rightarrow> (error + ('r, 'v) fwd_result) \<times> 'c option" where
  "forward env self hidden_states attention_mask past_key_values use_cache
     lower_bound cu_seqlens =
     (case pre_kernel env self hidden_states attention_mask past_key_values use_cache
             lower_bound cu_seqlens of
        Inl e \<Rightarrow> (Inl e, past_key_values)
      | Inr loc \<Rightarrow>
     (case run_kernel env loc use_cache cu_seqlens of
        Inl e \<Rightarrow> (Inl e, past_key_values)
      | Inr (o_seq, rs, call) \<Rightarrow>
          (let w = (case past_key_values of
                      None \<Rightarrow> None
                    | Some cache \<Rightarrow> Some (update_args self loc rs));
               past_key_values' =
                 (case past_key_values of
                    None \<Rightarrow> None
                  | Some cache \<Rightarrow> Some (cache_update env cache (update_args self loc rs)));
               o_normed = g_norm env o_seq (g_proj env hidden_states);
               o_out = o_proj env o_normed
           in (Inr \<lparr>r_output = o_out, r_kernel = call, r_cache_write = w\<rparr>,
               past_key_values'))))"

section \<open>A small instance of the collaborators\<close>

text \<open>
  The theorems below hold for every instance of the collaborators. To run the layer
  on concrete inputs, this section gives one small instance.
\<close>

text \<open>\<^verbatim>\<open>nn.Linear(in_features, out_features, bias=False)\<close> with weight matrix \<open>W\<close>,
  one row per output feature.\<close>

definition linear :: "real list list \<Rightarrow> tensor \<Rightarrow> tensor" where
  "linear W x =
     \<lparr>nb = nb x, nt = nt x, nc = length W,
      el = \<lambda>b t j. foldl fl_add (Fin 0)
                     (map (\<lambda>k. fl_mul (el x b t k) (Fin (W ! j ! k))) [0..<nc x])\<rparr>"

fun fl_sigmoid :: "fl \<Rightarrow> fl" where
  "fl_sigmoid NaN = NaN"
| "fl_sigmoid NInf = Fin 0"
| "fl_sigmoid (Fin x) = Fin (1 / (1 + exp (- x)))"
| "fl_sigmoid PInf = Fin 1"

text \<open>
  Modelled from the spec: \<^verbatim>\<open>swiglu\<close> of \<^verbatim>\<open>fla.modules.activations\<close> is not in the
  source tree. Section 4.2 of the spec: elementwise, a smooth gated linear unit of
  the raw input whose gate value is the second argument.
\<close>

definition toy_swiglu :: "tensor \<Rightarrow> tensor \<Rightarrow> tensor" where
  "toy_swiglu x y =
     x\<lparr>el := \<lambda>b t c. fl_mul (fl_mul (el x b t c) (fl_sigmoid (el x b t c))) (el y b t c)\<rparr>"

text \<open>
  Modelled from the spec: the kernels of \<^verbatim>\<open>fla.ops.hgrn\<close> are not in the source tree.
  Section 4.3 of the spec: \<open>h[t] = exp(f[t]) * h[t-1] + i[t]\<close>, from the initial state
  (zero when there is none), the state not crossing a segment boundary; the final
  state is returned when it is asked for, and is the initial state on an empty
  sequence.
\<close>

fun hgrn_h :: "tensor \<Rightarrow> tensor \<Rightarrow> (nat \<Rightarrow> nat \<Rightarrow> fl) \<Rightarrow> nat list \<Rightarrow> nat \<Rightarrow> nat \<Rightarrow> nat \<Rightarrow> fl" where
  "hgrn_h x g h0 starts b 0 c =
     fl_add (fl_mul (fl_exp (el g b 0 c)) (if 0 \<in> set starts then Fin 0 else h0 b c))
            (el x b 0 c)"
| "hgrn_h x g h0 starts b (Suc t) c =
     fl_add (fl_mul (fl_exp (el g b (Suc t) c))
                    (if Suc t \<in> set starts then Fin 0 else hgrn_h x g h0 starts b t c))
            (el x b (Suc t) c)"

definition toy_hgrn ::
  "tensor \<Rightarrow> tensor \<Rightarrow> (nat \<Rightarrow> nat \<Rightarrow> fl) option \<Rightarrow> bool \<Rightarrow> int list option
   \<Rightarrow> tensor \<times> (nat \<Rightarrow> nat \<Rightarrow> fl) option" where
  "toy_hgrn x g initial_state output_final_state cu_seqlens =
     (let h0 = (case initial_state of None \<Rightarrow> (\<lambda>b c. Fin 0) | Some h \<Rightarrow> h);
          starts = (case cu_seqlens of None \<Rightarrow> [] | Some cu \<Rightarrow> map nat cu)
      in (x\<lparr>el := hgrn_h x g h0 starts\<rparr>,
          if output_final_state
          then Some (\<lambda>b c. if nt x = 0 then h0 b c
                            else hgrn_h x g h0 starts b (nt x - 1) c)
          else None))"

text \<open>
  Modelled from the spec: \<^verbatim>\<open>ShortConvolution\<close> of \<^verbatim>\<open>fla.modules\<close> is not in the source
  tree. Section 6 of the spec gives its interface only. The instance is the causal
  convolution whose only weight that is not 0 is a 1 on the current step, without
  bias; it multiplies its input by the padding mask it is given, and has no state to
  carry.
\<close>

definition toy_conv :: "unit conv_fn" where
  "toy_conv x conv_mask cache output_final_state cu_seqlens =
     ((case conv_mask of
         None \<Rightarrow> x
       | Some m \<Rightarrow> (case mul_mask x m of Inl _ \<Rightarrow> x | Inr y \<Rightarrow> y)),
      if output_final_state then Some () else None)"

text \<open>
  Modelled from the spec: the \<^verbatim>\<open>Cache\<close> class of \<^verbatim>\<open>fla.models.utils\<close> is not in the
  source tree. Sections 4.4 and 6 of the spec: indexable by layer, with a length, and
  an update that upserts the entry of the layer and records how many time steps were
  consumed.
\<close>

record toy_cache =
  states :: "((nat \<Rightarrow> nat \<Rightarrow> fl), unit) layer_state list"
  seen_tokens :: nat

definition toy_getitem ::
  "toy_cache \<Rightarrow> int \<Rightarrow> error + ((nat \<Rightarrow> nat \<Rightarrow> fl), unit) layer_state" where
  "toy_getitem c k =
     (let n = int (length (states c)); j = (if k < 0 then n + k else k)
      in if 0 \<le> j \<and> j < n then Inr (states c ! nat j) else Inl IndexError)"

definition toy_update ::
  "toy_cache \<Rightarrow> ((nat \<Rightarrow> nat \<Rightarrow> fl), unit) update_call \<Rightarrow> toy_cache" where
  "toy_update c u =
     (let st = \<lparr>recurrent_state = u_recurrent_state u, conv_state = u_conv_state u\<rparr>;
          k = (case u_layer_idx u of None \<Rightarrow> 0 | Some j \<Rightarrow> nat j)
      in \<lparr>states = (if length (states c) \<le> k then states c @ [st]
                     else (states c)[k := st]),
          seen_tokens = seen_tokens c + u_offset u\<rparr>)"

definition toy_env :: "(toy_cache, (nat \<Rightarrow> nat \<Rightarrow> fl), unit) env" where
  "toy_env =
     \<lparr>i_proj = linear [[1, 0], [0, 1]],
      f_proj = linear [[1, 0], [0, 1]],
      g_proj = linear [[1, 0], [0, 1]],
      o_proj = linear [[1, 0], [0, 1]],
      i_conv1d = toy_conv,
      f_conv1d = toy_conv,
      g_norm = (\<lambda>x g. x\<lparr>el := \<lambda>b t c. fl_mul (el x b t c) (fl_sigmoid (el g b t c))\<rparr>),
      swiglu = toy_swiglu,
      chunk_hgrn = (\<lambda>x g h0 ofs. toy_hgrn x g h0 ofs None),
      fused_recurrent_hgrn = toy_hgrn,
      cache_len = (\<lambda>c. int (length (states c))),
      cache_getitem = toy_getitem,
      cache_update = toy_update\<rparr>"

text \<open>A layer with two channels and no expansion, as \<^verbatim>\<open>__init__\<close> builds it, and the
  same layer after \<^verbatim>\<open>eval()\<close>.\<close>

definition toy_layer :: "string \<Rightarrow> bool \<Rightarrow> int option \<Rightarrow> layer" where
  "toy_layer md usc li =
     (case HGRNAttention_init md 2 1 usc 4 False (Some True) (1 / 100000) li of
        Inr l \<Rightarrow> l
      | Inl _ \<Rightarrow> undefined)"

definition eval_mode :: "layer \<Rightarrow> layer" where
  "eval_mode self = self\<lparr>training := False\<rparr>"

text \<open>A tensor with every element equal.\<close>

definition full :: "nat \<Rightarrow> nat \<Rightarrow> nat \<Rightarrow> real \<Rightarrow> tensor" where
  "full B T C v = \<lparr>nb = B, nt = T, nc = C, el = \<lambda>b t c. Fin v\<rparr>"

definition empty_cache :: toy_cache where
  "empty_cache = \<lparr>states = [], seen_tokens = 0\<rparr>"

text \<open>A padding mask from its rows, and a pairwise mask of three dimensions.\<close>

definition mask_of :: "real list list \<Rightarrow> mask" where
  "mask_of rows =
     \<lparr>mshape = [length rows, length (hd rows)],
      mel = \<lambda>ix. Fin (rows ! (ix ! 0) ! (ix ! 1))\<rparr>"

definition pairwise_mask :: mask where
  "pairwise_mask = \<lparr>mshape = [1, 1, 1], mel = \<lambda>ix. Fin 1\<rparr>"

text \<open>The name of the kernel a call ran and the offset it wrote to the cache.\<close>

definition kernel_run :: "(error + ('r, 'v) fwd_result) \<Rightarrow> string option" where
  "kernel_run res = (case res of Inl _ \<Rightarrow> None | Inr r \<Rightarrow> Some (k_name (r_kernel r)))"

definition offset_written :: "(error + ('r, 'v) fwd_result) \<Rightarrow> nat option" where
  "offset_written res =
     (case res of Inl _ \<Rightarrow> None | Inr r \<Rightarrow> map_option u_offset (r_cache_write r))"

text \<open>The log-decay and the input the kernel of a call received.\<close>

definition kernel_decay :: "(error + ('r, 'v) fwd_result) \<Rightarrow> tensor option" where
  "kernel_decay res = (case res of Inl _ \<Rightarrow> None | Inr r \<Rightarrow> Some (k_g (r_kernel r)))"

definition kernel_input :: "(error + ('r, 'v) fwd_result) \<Rightarrow> tensor option" where
  "kernel_input res = (case res of Inl _ \<Rightarrow> None | Inr r \<Rightarrow> Some (k_x (r_kernel r)))"

text \<open>One element of the log-decay, and the convolution states written to the cache.\<close>

definition decay_at :: "(error + ('r, 'v) fwd_result) \<Rightarrow> nat \<Rightarrow> nat \<Rightarrow> nat \<Rightarrow> fl option" where
  "decay_at res b t c =
     (case res of Inl _ \<Rightarrow> None | Inr r \<Rightarrow> Some (el (k_g (r_kernel r)) b t c))"

definition conv_state_written ::
  "(error + ('r, 'v) fwd_result) \<Rightarrow> ('v option \<times> 'v option) option option" where
  "conv_state_written res =
     (case res of Inl _ \<Rightarrow> None | Inr r \<Rightarrow> map_option u_conv_state (r_cache_write r))"


section \<open>How a call proceeds\<close>

definition ok :: "'e + 'a \<Rightarrow> bool" where
  "ok r = (case r of Inl _ \<Rightarrow> False | Inr _ \<Rightarrow> True)"

lemma ok_simps [simp]: "ok (Inr x)" "\<not> ok (Inl e)"
  by (simp_all add: ok_def)

lemma forward_pre_error:
  "pre_kernel env self hs am pkv uc lb cu = Inl e \<Longrightarrow>
   forward env self hs am pkv uc lb cu = (Inl e, pkv)"
  by (simp add: forward_def)

lemma forward_kernel_error:
  "pre_kernel env self hs am pkv uc lb cu = Inr loc \<Longrightarrow>
   run_kernel env loc uc cu = Inl e \<Longrightarrow>
   forward env self hs am pkv uc lb cu = (Inl e, pkv)"
  by (simp add: forward_def)

lemma forward_success:
  "pre_kernel env self hs am pkv uc lb cu = Inr loc \<Longrightarrow>
   run_kernel env loc uc cu = Inr (o_seq, rs, call) \<Longrightarrow>
   forward env self hs am pkv uc lb cu =
     (Inr \<lparr>r_output = o_proj env (g_norm env o_seq (g_proj env hs)), r_kernel = call,
           r_cache_write = map_option (\<lambda>c. update_args self loc rs) pkv\<rparr>,
      map_option (\<lambda>c. cache_update env c (update_args self loc rs)) pkv)"
  by (cases pkv) (simp_all add: forward_def)

lemma forward_error_keeps_cache:
  "forward env self hs am pkv uc lb cu = (Inl e, c') \<Longrightarrow> c' = pkv"
  by (auto simp: forward_def Let_def split: sum.splits prod.splits)

lemma forward_returns:
  assumes "forward env self hs am pkv uc lb cu = (Inr r, c')"
  obtains loc o_seq rs where
    "pre_kernel env self hs am pkv uc lb cu = Inr loc"
    "run_kernel env loc uc cu = Inr (o_seq, rs, r_kernel r)"
    "r_cache_write r = map_option (\<lambda>c. update_args self loc rs) pkv"
    "c' = map_option (\<lambda>c. cache_update env c (update_args self loc rs)) pkv"
proof (cases "pre_kernel env self hs am pkv uc lb cu")
  case (Inl e)
  with assms show ?thesis by (simp add: forward_pre_error)
next
  case (Inr loc)
  show ?thesis
  proof (cases "run_kernel env loc uc cu")
    case (Inl e)
    with Inr assms show ?thesis by (simp add: forward_kernel_error)
  next
    case (Inr res)
    obtain o_seq rs call where res: "res = (o_seq, rs, call)"
      by (cases res) auto
    from \<open>pre_kernel env self hs am pkv uc lb cu = Inr loc\<close> Inr res assms that
    show ?thesis by (auto simp: forward_success)
  qed
qed

lemma run_kernel_call:
  assumes "run_kernel env loc uc cu = Inr (o_seq, rs, call)"
  shows "k_name call = l_mode loc" "k_x call = l_i loc" "k_g call = l_f loc"
    "k_output_final_state call = uc"
    "k_name call = ''chunk'' \<or> k_name call = ''fused_recurrent''"
  using assms
  by (auto simp: run_kernel_def Let_def split: if_splits prod.splits)

lemma run_kernel_cu_seqlens:
  assumes "run_kernel env loc uc cu = Inr (o_seq, rs, call)"
  shows "k_cu_seqlens call = (if l_mode loc = ''chunk'' then None else cu)"
  using assms
  by (auto simp: run_kernel_def Let_def split: if_splits prod.splits)

lemma pre_kernel_stages:
  assumes "pre_kernel env self hs am pkv uc lb cu = Inr loc"
  shows "check_mask am = Inr ()"
    "read_last_state env self pkv = Inr (l_last_state loc)"
    "branches env self hs am (l_last_state loc) uc cu =
       Inr (l_i_raw loc, l_conv_state_i loc, l_f_raw loc, l_conv_state_f loc)"
    "compose_gate lb (layer_idx self) (l_f_raw loc) = Inr (l_f loc)"
    "apply_padding am (activate env (l_i_raw loc) (l_f loc)) = Inr (l_i loc)"
    "l_mode loc = select_mode self hs"
  using assms
  by (auto simp: pre_kernel_def split: sum.splits prod.splits)

lemma run_kernel_fused:
  assumes "l_mode loc = ''fused_recurrent''"
  shows "\<exists>o_seq rs call. run_kernel env loc uc cu = Inr (o_seq, rs, call)"
  using assms by (simp add: run_kernel_def Let_def split: prod.splits)

lemma branches_conv:
  assumes "use_short_conv self"
    and "branches env self hs am lst uc cu = Inr (i, ci', f, cf')"
  shows "\<exists>ci cf.
           (lst = None \<longrightarrow> ci = None \<and> cf = None)
           \<and> (\<forall>st. lst = Some st \<longrightarrow> conv_state st = Some (ci, cf))
           \<and> i_conv1d env (i_proj env hs) (map_option (\<lambda>m. trim_mask m (dim hs 1)) am) ci uc cu
               = (i, ci')
           \<and> f_conv1d env (f_proj env hs) (map_option (\<lambda>m. trim_mask m (dim hs 1)) am) cf uc cu
               = (f, cf')"
  using assms
  by (auto simp: branches_def Let_def split: option.splits sum.splits prod.splits)

lemmas forward_defs =
  forward_def pre_kernel_def check_mask_def read_last_state_def branches_def
  compose_gate_def apply_padding_def activate_def run_kernel_def select_mode_def
  update_args_def dim_def shape_def

lemmas toy_defs =
  toy_env_def toy_layer_def HGRNAttention_init_def empty_cache_def full_def linear_def
  toy_hgrn_def toy_swiglu_def tmap_def eval_mode_def toy_conv_def toy_getitem_def
  toy_update_def mask_of_def pairwise_mask_def kernel_run_def offset_written_def
  kernel_decay_def kernel_input_def decay_at_def conv_state_written_def

section \<open>The padding mask is checked first\<close>

text \<open>
  C7: a forward call with an attention mask that does not have exactly two dimensions
  fails with the assertion error of lines 89 to 94, whatever the other arguments and
  the collaborators are, so before anything is computed; the cache object is left as
  it was.
\<close>

theorem mask_not_2d_fails:
  assumes "length (mshape m) \<noteq> 2"
  shows "forward env self hs (Some m) pkv uc lb cu = (Inl (AssertionError mask_message), pkv)"
proof -
  from assms have "check_mask (Some m) = Inl (AssertionError mask_message)"
    by (simp add: check_mask_def)
  then have "pre_kernel env self hs (Some m) pkv uc lb cu = Inl (AssertionError mask_message)"
    by (simp add: pre_kernel_def)
  then show ?thesis by (rule forward_pre_error)
qed

theorem mask_not_2d_fails_witness:
  "length (mshape pairwise_mask) \<noteq> 2 \<and>
   forward toy_env (toy_layer ''chunk'' False (Some 0)) (full 1 1 2 0) (Some pairwise_mask)
     (Some empty_cache) True None None
   = (Inl (AssertionError mask_message), Some empty_cache)"
proof -
  have h: "length (mshape pairwise_mask) \<noteq> 2" by (simp add: pairwise_mask_def)
  show ?thesis using h mask_not_2d_fails [OF h] by simp
qed

section \<open>The mode\<close>

text \<open>
  C9: a mode other than \<^verbatim>\<open>chunk\<close> and \<^verbatim>\<open>fused_recurrent\<close> is rejected. The constructor
  fails on its assertion with the message "Not supported mode", before it builds a
  submodule, so no layer with such a mode exists. Should \<^verbatim>\<open>forward\<close> all the same
  select such a mode, it fails too and leaves the cache as it was; once the inputs have
  passed the steps before the kernel, the error is the NotImplementedError of line 156,
  and no kernel is run.
\<close>

theorem unsupported_mode_fails:
  assumes "md \<notin> set [''chunk'', ''fused_recurrent'']"
  shows "HGRNAttention_init md hsz er usc cs cb ea eps li
           = Inl (AssertionError (''Not supported mode `'' @ md @ ''`.''))
         \<and> (select_mode self hs = md \<longrightarrow>
              (\<exists>e. forward env self hs am pkv uc lb cu = (Inl e, pkv)) \<and>
              (ok (pre_kernel env self hs am pkv uc lb cu) \<longrightarrow>
                 forward env self hs am pkv uc lb cu
                   = (Inl (NotImplementedError (''Not supported mode `'' @ md @ ''`.'')), pkv)))"
proof (intro conjI impI)
  show "HGRNAttention_init md hsz er usc cs cb ea eps li
          = Inl (AssertionError (''Not supported mode `'' @ md @ ''`.''))"
    using assms by (simp add: HGRNAttention_init_def)
next
  assume sel: "select_mode self hs = md"
  show "\<exists>e. forward env self hs am pkv uc lb cu = (Inl e, pkv)"
  proof (cases "pre_kernel env self hs am pkv uc lb cu")
    case (Inl e)
    then show ?thesis by (auto simp: forward_pre_error)
  next
    case (Inr loc)
    from pre_kernel_stages(6) [OF Inr] sel have "l_mode loc = md" by simp
    with assms have "run_kernel env loc uc cu
        = Inl (NotImplementedError (''Not supported mode `'' @ md @ ''`.''))"
      by (auto simp: run_kernel_def)
    with Inr show ?thesis by (auto simp: forward_kernel_error)
  qed
next
  assume sel: "select_mode self hs = md"
    and pre: "ok (pre_kernel env self hs am pkv uc lb cu)"
  from pre obtain loc where loc: "pre_kernel env self hs am pkv uc lb cu = Inr loc"
    by (cases "pre_kernel env self hs am pkv uc lb cu") auto
  from pre_kernel_stages(6) [OF loc] sel have "l_mode loc = md" by simp
  with assms have "run_kernel env loc uc cu
      = Inl (NotImplementedError (''Not supported mode `'' @ md @ ''`.''))"
    by (auto simp: run_kernel_def)
  with loc show "forward env self hs am pkv uc lb cu
      = (Inl (NotImplementedError (''Not supported mode `'' @ md @ ''`.'')), pkv)"
    by (simp add: forward_kernel_error)
qed

theorem unsupported_mode_fails_witness:
  "''foo'' \<notin> set [''chunk'', ''fused_recurrent''] \<and>
   HGRNAttention_init ''foo'' 2 1 False 4 False (Some True) (1 / 100000) (Some 0)
     = Inl (AssertionError ''Not supported mode `foo`.'') \<and>
   select_mode ((toy_layer ''chunk'' False (Some 0))\<lparr>mode := ''foo''\<rparr>) (full 1 3 2 0) = ''foo'' \<and>
   ok (pre_kernel toy_env ((toy_layer ''chunk'' False (Some 0))\<lparr>mode := ''foo''\<rparr>) (full 1 3 2 0)
         None (Some empty_cache) True None None) \<and>
   forward toy_env ((toy_layer ''chunk'' False (Some 0))\<lparr>mode := ''foo''\<rparr>) (full 1 3 2 0)
     None (Some empty_cache) True None None
     = (Inl (NotImplementedError ''Not supported mode `foo`.''), Some empty_cache)"
proof -
  let ?self = "(toy_layer ''chunk'' False (Some 0))\<lparr>mode := ''foo''\<rparr>"
  have h: "''foo'' \<notin> set [''chunk'', ''fused_recurrent'']" by simp
  have sel: "select_mode ?self (full 1 3 2 0) = ''foo''"
    by (simp add: select_mode_def toy_defs)
  have pre: "ok (pre_kernel toy_env ?self (full 1 3 2 0) None (Some empty_cache) True None None)"
    by (simp add: forward_defs toy_defs Let_def)
  show ?thesis
    using h sel pre
      unsupported_mode_fails [OF h, of 2 1 False 4 False "Some True" "1 / 100000" "Some 0"
        ?self "full 1 3 2 0" toy_env None "Some empty_cache" True None None]
    by simp
qed

text \<open>
  C4, as the code has it: a call that returns has run the kernel of the selected mode,
  and that is \<^verbatim>\<open>fused_recurrent\<close> exactly when the module is not training and the
  input has at most 64 steps, or the configured mode is \<^verbatim>\<open>fused_recurrent\<close> itself;
  outside the first case the configured mode is used.
\<close>

theorem mode_selection:
  assumes "forward env self hs am pkv uc lb cu = (Inr r, c')"
  shows "k_name (r_kernel r) = select_mode self hs
         \<and> (k_name (r_kernel r) = ''fused_recurrent'' \<longleftrightarrow>
              (\<not> training self \<and> dim hs 1 \<le> 64) \<or> mode self = ''fused_recurrent'')
         \<and> (\<not> (\<not> training self \<and> dim hs 1 \<le> 64) \<longrightarrow> k_name (r_kernel r) = mode self)"
proof -
  from assms obtain loc o_seq rs where
    pre: "pre_kernel env self hs am pkv uc lb cu = Inr loc" and
    run: "run_kernel env loc uc cu = Inr (o_seq, rs, r_kernel r)"
    by (rule forward_returns)
  have "k_name (r_kernel r) = select_mode self hs"
    using run_kernel_call(1) [OF run] pre_kernel_stages(6) [OF pre] by simp
  then show ?thesis by (auto simp: select_mode_def)
qed

theorem mode_selection_witness:
  "kernel_run (fst (forward toy_env (eval_mode (toy_layer ''chunk'' False None)) (full 1 3 2 0)
                      None None False None None)) = Some ''fused_recurrent''
   \<and> \<not> training (eval_mode (toy_layer ''chunk'' False None))
   \<and> dim (full 1 3 2 0) 1 \<le> 64"
proof -
  let ?self = "eval_mode (toy_layer ''chunk'' False None)"
  let ?call = "forward toy_env ?self (full 1 3 2 0) None None False None None"
  have "ok (fst ?call)"
    by (simp add: forward_defs toy_defs Let_def split: prod.splits)
  then obtain r c' where h: "?call = (Inr r, c')"
    by (cases ?call; cases "fst ?call") auto
  have t: "\<not> training ?self" "dim (full 1 3 2 0) 1 \<le> 64"
    by (simp_all add: toy_defs dim_def shape_def)
  from mode_selection [OF h] t have "k_name (r_kernel r) = ''fused_recurrent''"
    by blast
  with h t show ?thesis by (simp add: kernel_run_def)
qed

text \<open>
  C4 as it is written fails: a layer configured with \<^verbatim>\<open>fused_recurrent\<close> that is in
  training mode runs \<^verbatim>\<open>fused_recurrent\<close> on 100 steps.
\<close>

theorem mode_selection_counterexample:
  "kernel_run (fst (forward toy_env (toy_layer ''fused_recurrent'' False None) (full 1 100 2 0)
                      None None False None None)) = Some ''fused_recurrent''
   \<and> select_mode (toy_layer ''fused_recurrent'' False None) (full 1 100 2 0) = ''fused_recurrent''
   \<and> training (toy_layer ''fused_recurrent'' False None)
   \<and> \<not> dim (full 1 100 2 0) 1 \<le> 64"
  by (simp add: forward_defs toy_defs Let_def split: prod.splits)

text \<open>
  C3, as the code has it: when the mode selected for the call is \<^verbatim>\<open>chunk\<close> (the layer
  is configured with \<^verbatim>\<open>chunk\<close>, and it is training or the input has more than 64 steps)
  and segment boundaries are given, the call fails and leaves the cache as it was; once
  the inputs have passed the steps before the kernel, the error is the
  NotImplementedError of line 140. For a layer configured with \<^verbatim>\<open>chunk\<close> that is
  not training and gets at most 64 steps the boundaries are not refused: once the
  inputs have passed the steps before the kernel the call returns, and a call that
  returns has run \<^verbatim>\<open>fused_recurrent\<close> with the boundaries.
\<close>

theorem chunk_with_cu_seqlens:
  assumes "mode self = ''chunk''" and "cu \<noteq> None"
  shows "(training self \<or> 64 < dim hs 1 \<longrightarrow>
            (\<exists>e. forward env self hs am pkv uc lb cu = (Inl e, pkv)) \<and>
            (ok (pre_kernel env self hs am pkv uc lb cu) \<longrightarrow>
               forward env self hs am pkv uc lb cu
                 = (Inl (NotImplementedError
                      ''Chunk mode does not support variable-length sequences.''), pkv)))
         \<and> (\<not> training self \<and> dim hs 1 \<le> 64 \<longrightarrow>
              (ok (pre_kernel env self hs am pkv uc lb cu) \<longrightarrow>
                 (\<exists>r c'. forward env self hs am pkv uc lb cu = (Inr r, c')
                    \<and> k_name (r_kernel r) = ''fused_recurrent''
                    \<and> k_cu_seqlens (r_kernel r) = cu)) \<and>
              (\<forall>r c'. forward env self hs am pkv uc lb cu = (Inr r, c') \<longrightarrow>
                 k_name (r_kernel r) = ''fused_recurrent'' \<and> k_cu_seqlens (r_kernel r) = cu))"
proof (intro conjI impI allI)
  assume tr: "training self \<or> 64 < dim hs 1"
  with assms have sel: "select_mode self hs = ''chunk''"
    by (auto simp: select_mode_def)
  have fail: "forward env self hs am pkv uc lb cu
      = (Inl (NotImplementedError
           ''Chunk mode does not support variable-length sequences.''), pkv)"
    if "pre_kernel env self hs am pkv uc lb cu = Inr loc" for loc
  proof -
    from pre_kernel_stages(6) [OF that] sel have "l_mode loc = ''chunk''" by simp
    with assms(2) have "run_kernel env loc uc cu
        = Inl (NotImplementedError
            ''Chunk mode does not support variable-length sequences.'')"
      by (simp add: run_kernel_def)
    with that show ?thesis by (simp add: forward_kernel_error)
  qed
  show "\<exists>e. forward env self hs am pkv uc lb cu = (Inl e, pkv)"
  proof (cases "pre_kernel env self hs am pkv uc lb cu")
    case (Inl e)
    then show ?thesis by (auto simp: forward_pre_error)
  next
    case (Inr loc)
    then show ?thesis by (auto simp: fail)
  qed
  show "forward env self hs am pkv uc lb cu
      = (Inl (NotImplementedError
           ''Chunk mode does not support variable-length sequences.''), pkv)"
    if "ok (pre_kernel env self hs am pkv uc lb cu)"
    using that fail by (cases "pre_kernel env self hs am pkv uc lb cu") auto
next
  assume ev: "\<not> training self \<and> dim hs 1 \<le> 64"
    and pre: "ok (pre_kernel env self hs am pkv uc lb cu)"
  from pre obtain loc where loc: "pre_kernel env self hs am pkv uc lb cu = Inr loc"
    by (cases "pre_kernel env self hs am pkv uc lb cu") auto
  from pre_kernel_stages(6) [OF loc] ev have m: "l_mode loc = ''fused_recurrent''"
    by (simp add: select_mode_def)
  from run_kernel_fused [OF m] obtain o_seq rs call where
    run: "run_kernel env loc uc cu = Inr (o_seq, rs, call)"
    by blast
  from run_kernel_call(1) [OF run] run_kernel_cu_seqlens [OF run] m
  have "k_name call = ''fused_recurrent''" "k_cu_seqlens call = cu"
    by simp_all
  with forward_success [OF loc run]
  show "\<exists>r c'. forward env self hs am pkv uc lb cu = (Inr r, c')
          \<and> k_name (r_kernel r) = ''fused_recurrent'' \<and> k_cu_seqlens (r_kernel r) = cu"
    by simp
next
  fix r c'
  assume ev: "\<not> training self \<and> dim hs 1 \<le> 64"
    and ret: "forward env self hs am pkv uc lb cu = (Inr r, c')"
  from ret obtain loc o_seq rs where
    pre: "pre_kernel env self hs am pkv uc lb cu = Inr loc" and
    run: "run_kernel env loc uc cu = Inr (o_seq, rs, r_kernel r)"
    by (rule forward_returns)
  from pre_kernel_stages(6) [OF pre] ev have "l_mode loc = ''fused_recurrent''"
    by (simp add: select_mode_def)
  with run_kernel_call(1) [OF run] run_kernel_cu_seqlens [OF run]
  show "k_name (r_kernel r) = ''fused_recurrent''"
    and "k_cu_seqlens (r_kernel r) = cu"
    by simp_all
qed

theorem chunk_with_cu_seqlens_witness:
  "mode (toy_layer ''chunk'' False (Some 0)) = ''chunk'' \<and> Some [0, 3] \<noteq> (None :: int list option)
   \<and> training (toy_layer ''chunk'' False (Some 0))
   \<and> ok (pre_kernel toy_env (toy_layer ''chunk'' False (Some 0)) (full 1 3 2 0) None
            (Some empty_cache) True None (Some [0, 3]))
   \<and> forward toy_env (toy_layer ''chunk'' False (Some 0)) (full 1 3 2 0) None
       (Some empty_cache) True None (Some [0, 3])
     = (Inl (NotImplementedError ''Chunk mode does not support variable-length sequences.''),
        Some empty_cache)
   \<and> mode (eval_mode (toy_layer ''chunk'' False (Some 0))) = ''chunk''
   \<and> \<not> training (eval_mode (toy_layer ''chunk'' False (Some 0)))
   \<and> dim (full 1 3 2 0) 1 \<le> 64
   \<and> ok (pre_kernel toy_env (eval_mode (toy_layer ''chunk'' False (Some 0))) (full 1 3 2 0)
            None (Some empty_cache) True None (Some [0, 3]))
   \<and> kernel_run (fst (forward toy_env (eval_mode (toy_layer ''chunk'' False (Some 0)))
                        (full 1 3 2 0) None (Some empty_cache) True None (Some [0, 3])))
       = Some ''fused_recurrent''"
proof -
  let ?self = "toy_layer ''chunk'' False (Some 0)"
  have m: "mode ?self = ''chunk''" and tr: "training ?self"
    by (simp_all add: toy_defs)
  have cu: "Some [0, 3] \<noteq> (None :: int list option)" by simp
  have pre: "ok (pre_kernel toy_env ?self (full 1 3 2 0) None (Some empty_cache) True None
                   (Some [0, 3]))"
    by (simp add: forward_defs toy_defs Let_def)
  have first: "forward toy_env ?self (full 1 3 2 0) None (Some empty_cache) True None
      (Some [0, 3])
    = (Inl (NotImplementedError ''Chunk mode does not support variable-length sequences.''),
       Some empty_cache)"
    using tr pre
      chunk_with_cu_seqlens [OF m cu, of "full 1 3 2 0" toy_env None "Some empty_cache" True None]
    by simp
  let ?ev = "eval_mode (toy_layer ''chunk'' False (Some 0))"
  let ?call = "forward toy_env ?ev (full 1 3 2 0) None (Some empty_cache) True None
                 (Some [0, 3])"
  have m': "mode ?ev = ''chunk''" and ev: "\<not> training ?ev" "dim (full 1 3 2 0) 1 \<le> 64"
    by (simp_all add: toy_defs dim_def shape_def)
  have pre': "ok (pre_kernel toy_env ?ev (full 1 3 2 0) None (Some empty_cache) True None
                    (Some [0, 3]))"
    by (simp add: forward_defs toy_defs Let_def)
  from chunk_with_cu_seqlens [OF m' cu, of "full 1 3 2 0" toy_env None "Some empty_cache"
      True None] ev pre'
  obtain r c' where "?call = (Inr r, c')" "k_name (r_kernel r) = ''fused_recurrent''"
    by blast
  then have second: "kernel_run (fst ?call) = Some ''fused_recurrent''"
    by (simp add: kernel_run_def)
  from m tr cu pre first m' ev pre' second show ?thesis by simp
qed

text \<open>
  C3 as it is written fails: a layer configured with \<^verbatim>\<open>chunk\<close>, not training, called
  with segment boundaries on 3 steps, returns normally, having run the
  \<^verbatim>\<open>fused_recurrent\<close> kernel and written the cache.
\<close>

theorem chunk_with_cu_seqlens_counterexample:
  "mode (eval_mode (toy_layer ''chunk'' False (Some 0))) = ''chunk''
   \<and> kernel_run (fst (forward toy_env (eval_mode (toy_layer ''chunk'' False (Some 0)))
                        (full 1 3 2 0) None (Some empty_cache) True None (Some [0, 3])))
       = Some ''fused_recurrent''
   \<and> snd (forward toy_env (eval_mode (toy_layer ''chunk'' False (Some 0)))
            (full 1 3 2 0) None (Some empty_cache) True None (Some [0, 3]))
       \<noteq> Some empty_cache"
  by (simp add: forward_defs toy_defs Let_def split: prod.splits)

section \<open>The cache\<close>

lemma offset_is_last_dim:
  assumes "forward env self hs am (Some c) uc lb cu = (Inr r, c')"
  shows "map_option u_offset (r_cache_write r) = Some (nc (k_x (r_kernel r)))"
proof -
  from assms obtain loc o_seq rs where
    run: "run_kernel env loc uc cu = Inr (o_seq, rs, r_kernel r)" and
    w: "r_cache_write r = map_option (\<lambda>c. update_args self loc rs) (Some c)"
    by (rule forward_returns)
  from w run_kernel_call(2) [OF run] show ?thesis
    by (simp add: update_args_def dim_def shape_def)
qed

text \<open>
  C1 fails on the code: the offset passed to the cache update is \<^verbatim>\<open>i.shape[2]\<close>, the
  number of channels of the kernel input, not its number of time steps
  (\<^verbatim>\<open>i.shape[1]\<close>). A layer with 2 channels called on 3 steps records 2, and the cache
  counts 2 tokens seen.
\<close>

theorem offset_is_channel_count:
  "dim (full 1 3 2 1) 1 = 3
   \<and> offset_written (fst (forward toy_env (toy_layer ''chunk'' False (Some 0)) (full 1 3 2 1)
                            None (Some empty_cache) True None None)) = Some 2
   \<and> map_option seen_tokens
       (snd (forward toy_env (toy_layer ''chunk'' False (Some 0)) (full 1 3 2 1)
               None (Some empty_cache) True None None)) = Some 2"
  by (simp add: forward_defs toy_defs Let_def split: prod.splits)

text \<open>
  C8, as the code has it: the cache is written exactly when the caller passes a cache
  object, whatever \<^verbatim>\<open>use_cache\<close> is. A call that returns without a cache object has
  written nothing; a call that returns with one has made one update for this layer and
  hands the updated object back. \<^verbatim>\<open>use_cache\<close> is only passed on as
  \<^verbatim>\<open>output_final_state\<close>, to the kernel and, when they are enabled, to the two short
  convolutions, whose final states are what the update stores as \<^verbatim>\<open>conv_state\<close>.
\<close>

theorem cache_written_when_supplied:
  assumes "forward env self hs am pkv uc lb cu = (Inr r, c')"
  shows "(pkv = None \<longrightarrow> r_cache_write r = None \<and> c' = None)
         \<and> (\<forall>c. pkv = Some c \<longrightarrow>
              (\<exists>u. r_cache_write r = Some u \<and> u_layer_idx u = layer_idx self
                   \<and> c' = Some (cache_update env c u)))
         \<and> k_output_final_state (r_kernel r) = uc
         \<and> (use_short_conv self \<longrightarrow>
              (\<exists>loc ci cf.
                 pre_kernel env self hs am pkv uc lb cu = Inr loc
                 \<and> i_conv1d env (i_proj env hs)
                       (map_option (\<lambda>m. trim_mask m (dim hs 1)) am) ci uc cu
                     = (l_i_raw loc, l_conv_state_i loc)
                 \<and> f_conv1d env (f_proj env hs)
                       (map_option (\<lambda>m. trim_mask m (dim hs 1)) am) cf uc cu
                     = (l_f_raw loc, l_conv_state_f loc)
                 \<and> (\<forall>c. pkv = Some c \<longrightarrow>
                      (\<exists>u. r_cache_write r = Some u
                           \<and> u_conv_state u
                               = Some (l_conv_state_i loc, l_conv_state_f loc)))))"
proof -
  from assms obtain loc o_seq rs where
    pre: "pre_kernel env self hs am pkv uc lb cu = Inr loc" and
    run: "run_kernel env loc uc cu = Inr (o_seq, rs, r_kernel r)" and
    w: "r_cache_write r = map_option (\<lambda>c. update_args self loc rs) pkv" and
    c: "c' = map_option (\<lambda>c. cache_update env c (update_args self loc rs)) pkv"
    by (rule forward_returns)
  from w c run_kernel_call(4) [OF run]
  have first: "(pkv = None \<longrightarrow> r_cache_write r = None \<and> c' = None)
         \<and> (\<forall>c. pkv = Some c \<longrightarrow>
              (\<exists>u. r_cache_write r = Some u \<and> u_layer_idx u = layer_idx self
                   \<and> c' = Some (cache_update env c u)))
         \<and> k_output_final_state (r_kernel r) = uc"
    by (auto simp: update_args_def)
  have conv: "\<exists>loc ci cf.
      pre_kernel env self hs am pkv uc lb cu = Inr loc
      \<and> i_conv1d env (i_proj env hs) (map_option (\<lambda>m. trim_mask m (dim hs 1)) am) ci uc cu
          = (l_i_raw loc, l_conv_state_i loc)
      \<and> f_conv1d env (f_proj env hs) (map_option (\<lambda>m. trim_mask m (dim hs 1)) am) cf uc cu
          = (l_f_raw loc, l_conv_state_f loc)
      \<and> (\<forall>c. pkv = Some c \<longrightarrow>
           (\<exists>u. r_cache_write r = Some u
                \<and> u_conv_state u = Some (l_conv_state_i loc, l_conv_state_f loc)))"
    if usc: "use_short_conv self"
  proof -
    from branches_conv [OF usc pre_kernel_stages(3) [OF pre]] obtain ci cf where
      "i_conv1d env (i_proj env hs) (map_option (\<lambda>m. trim_mask m (dim hs 1)) am) ci uc cu
         = (l_i_raw loc, l_conv_state_i loc)"
      "f_conv1d env (f_proj env hs) (map_option (\<lambda>m. trim_mask m (dim hs 1)) am) cf uc cu
         = (l_f_raw loc, l_conv_state_f loc)"
      by blast
    with pre w usc show ?thesis
      by (intro exI [of _ loc] exI [of _ ci] exI [of _ cf]) (auto simp: update_args_def)
  qed
  from first conv show ?thesis by blast
qed


theorem cache_written_when_supplied_witness:
  "offset_written (fst (forward toy_env (toy_layer ''chunk'' False (Some 0)) (full 1 3 2 1)
                          None None True None None)) = None
   \<and> snd (forward toy_env (toy_layer ''chunk'' False (Some 0)) (full 1 3 2 1)
            None None True None None) = None
   \<and> offset_written (fst (forward toy_env (toy_layer ''chunk'' False (Some 0)) (full 1 3 2 1)
                          None (Some empty_cache) True None None)) \<noteq> None
   \<and> use_short_conv (toy_layer ''chunk'' True (Some 0))
   \<and> conv_state_written (fst (forward toy_env (toy_layer ''chunk'' True (Some 0)) (full 1 3 2 1)
                              None (Some empty_cache) True None None))
       = Some (Some (Some (), Some ()))"
proof -
  let ?self = "toy_layer ''chunk'' False (Some 0)"
  let ?a = "forward toy_env ?self (full 1 3 2 1) None None True None None"
  let ?b = "forward toy_env ?self (full 1 3 2 1) None (Some empty_cache) True None None"
  have "ok (fst ?a)"
    by (simp add: forward_defs toy_defs Let_def split: prod.splits)
  then obtain r c' where a: "?a = (Inr r, c')"
    by (cases ?a; cases "fst ?a") auto
  from cache_written_when_supplied [OF a] have "r_cache_write r = None" "c' = None"
    by simp_all
  with a have 1: "offset_written (fst ?a) = None" "snd ?a = None"
    by (simp_all add: offset_written_def)
  have "ok (fst ?b)"
    by (simp add: forward_defs toy_defs Let_def split: prod.splits)
  then obtain r2 c2 where b: "?b = (Inr r2, c2)"
    by (cases ?b; cases "fst ?b") auto
  from cache_written_when_supplied [OF b] obtain u where "r_cache_write r2 = Some u"
    by blast
  with b have 2: "offset_written (fst ?b) \<noteq> None"
    by (simp add: offset_written_def)
  let ?conv = "toy_layer ''chunk'' True (Some 0)"
  let ?c = "forward toy_env ?conv (full 1 3 2 1) None (Some empty_cache) True None None"
  have usc: "use_short_conv ?conv"
    by (simp add: toy_defs)
  have "ok (fst ?c)"
    by (simp add: forward_defs toy_defs Let_def split: prod.splits)
  then obtain r3 c3 where c: "?c = (Inr r3, c3)"
    by (cases ?c; cases "fst ?c") auto
  note conv = cache_written_when_supplied [OF c, THEN conjunct2, THEN conjunct2,
      THEN conjunct2, THEN mp, OF usc]
  from conv have "\<exists>u. r_cache_write r3 = Some u \<and> u_conv_state u = Some (Some (), Some ())"
    by (auto simp: toy_env_def toy_conv_def)
  then obtain u3 where w: "r_cache_write r3 = Some u3" "u_conv_state u3 = Some (Some (), Some ())"
    by blast
  from c w have 3: "conv_state_written (fst ?c) = Some (Some (Some (), Some ()))"
    by (simp add: conv_state_written_def)
  from 1 2 usc 3 show ?thesis by simp
qed


text \<open>
  C8 as it is written fails: with \<^verbatim>\<open>use_cache = False\<close> and a cache object, the call
  updates the cache.
\<close>

theorem cache_written_without_use_cache_counterexample:
  "offset_written (fst (forward toy_env (toy_layer ''chunk'' False (Some 0)) (full 1 3 2 1)
                          None (Some empty_cache) False None None)) = Some 2
   \<and> snd (forward toy_env (toy_layer ''chunk'' False (Some 0)) (full 1 3 2 1)
            None (Some empty_cache) False None None)
       = Some \<lparr>states = [\<lparr>recurrent_state = None, conv_state = None\<rparr>], seen_tokens = 2\<rparr>
   \<and> Some \<lparr>states = [\<lparr>recurrent_state = None, conv_state = None\<rparr>], seen_tokens = 2\<rparr>
       \<noteq> Some empty_cache"
  by (simp add: forward_defs toy_defs Let_def split: prod.splits)

section \<open>The size of the state\<close>




section \<open>Broadcast indices and the gate without a floor\<close>



section \<open>The input of the kernel and the padding mask\<close>

lemma forward_kernel_locals:
  assumes "forward env self hs am pkv uc lb cu = (Inr r, c')"
    and "pre_kernel env self hs am pkv uc lb cu = Inr loc"
  shows "k_x (r_kernel r) = l_i loc" "k_g (r_kernel r) = l_f loc"
proof -
  from assms(1) obtain loc' o_seq rs where
    pre': "pre_kernel env self hs am pkv uc lb cu = Inr loc'" and
    run: "run_kernel env loc' uc cu = Inr (o_seq, rs, r_kernel r)"
    by (rule forward_returns)
  from assms(2) pre' have "loc' = loc" by simp
  with run_kernel_call(2,3) [OF run]
  show "k_x (r_kernel r) = l_i loc" "k_g (r_kernel r) = l_f loc" by simp_all
qed

lemma branches_no_conv:
  assumes "\<not> use_short_conv self"
  shows "branches env self hs am lst uc cu = Inr (i_proj env hs, None, f_proj env hs, None)"
  using assms by (simp add: branches_def)

text \<open>
  C5, as the code has it: in a call that returns, the kernel receives the composed
  log-decay \<open>f\<close>, and its input is \<^verbatim>\<open>swiglu(i_raw, 1 - exp(f))\<close> when no padding mask is
  given; with a padding mask it is that tensor multiplied in place by the trimmed
  mask. Here \<open>i_raw\<close> and the raw forget logits are the two branches of lines 104 to
  125: the projections of the hidden states, passed through the short convolutions
  when those are enabled.
\<close>

theorem kernel_input_is_masked_swiglu:
  assumes fwd: "forward env self hs am pkv uc lb cu = (Inr r, c')"
    and pre: "pre_kernel env self hs am pkv uc lb cu = Inr loc"
  shows "k_g (r_kernel r) = l_f loc
         \<and> compose_gate lb (layer_idx self) (l_f_raw loc) = Inr (l_f loc)
         \<and> (\<not> use_short_conv self \<longrightarrow> l_i_raw loc = i_proj env hs \<and> l_f_raw loc = f_proj env hs)
         \<and> (am = None \<longrightarrow>
              k_x (r_kernel r)
                = swiglu env (l_i_raw loc) (tmap (\<lambda>v. fl_sub (Fin 1) (fl_exp v)) (l_f loc)))
         \<and> (\<forall>m. am = Some m \<longrightarrow>
              mul_mask (swiglu env (l_i_raw loc) (tmap (\<lambda>v. fl_sub (Fin 1) (fl_exp v)) (l_f loc)))
                (trim_mask m
                   (nt (swiglu env (l_i_raw loc)
                          (tmap (\<lambda>v. fl_sub (Fin 1) (fl_exp v)) (l_f loc)))))
                = Inr (k_x (r_kernel r)))"
proof -
  note k = forward_kernel_locals [OF fwd pre]
  note st = pre_kernel_stages [OF pre]
  have pad: "apply_padding am (swiglu env (l_i_raw loc)
                (tmap (\<lambda>v. fl_sub (Fin 1) (fl_exp v)) (l_f loc))) = Inr (k_x (r_kernel r))"
    using st(5) k(1) by (simp add: activate_def)
  have conv: "\<not> use_short_conv self \<longrightarrow> l_i_raw loc = i_proj env hs \<and> l_f_raw loc = f_proj env hs"
    using st(3) by (auto simp: branches_no_conv)
  from pad have none: "am = None \<longrightarrow>
      k_x (r_kernel r)
        = swiglu env (l_i_raw loc) (tmap (\<lambda>v. fl_sub (Fin 1) (fl_exp v)) (l_f loc))"
    by (auto simp: apply_padding_def)
  from pad have some: "\<forall>m. am = Some m \<longrightarrow>
      mul_mask (swiglu env (l_i_raw loc) (tmap (\<lambda>v. fl_sub (Fin 1) (fl_exp v)) (l_f loc)))
        (trim_mask m
           (nt (swiglu env (l_i_raw loc)
                  (tmap (\<lambda>v. fl_sub (Fin 1) (fl_exp v)) (l_f loc)))))
        = Inr (k_x (r_kernel r))"
    by (auto simp: apply_padding_def dim_def shape_def)
  from k(2) st(4) conv none some show ?thesis by simp
qed


lemmas mask_defs = trim_mask_def mul_mask_def bix_def

lemma toy_el_linear:
  "el (linear [[1, 0], [0, 1]] (full B T 2 v)) b t 0 = Fin v"
  "el (linear [[1, 0], [0, 1]] (full B T 2 v)) b t (Suc 0) = Fin v"
  by (simp_all add: linear_def full_def upt_rec)

lemma swiglu_one_nonzero:
  "fl_mul (fl_mul (Fin 1) (fl_sigmoid (Fin 1)))
          (fl_sub (Fin 1) (fl_exp (fl_logsigmoid (Fin 1)))) \<noteq> Fin 0"
proof -
  let ?s = "1 / (1 + exp (- 1 :: real))"
  have e: "0 < exp (- 1 :: real)" by simp
  then have pos: "0 < 1 + exp (- 1 :: real)" by (simp add: add_pos_pos)
  then have ls: "fl_exp (fl_logsigmoid (Fin 1)) = Fin ?s"
    by (simp add: exp_minus inverse_eq_divide)
  have eq: "fl_mul (fl_mul (Fin 1) (fl_sigmoid (Fin 1)))
          (fl_sub (Fin 1) (fl_exp (fl_logsigmoid (Fin 1)))) = Fin (1 * ?s * (1 - ?s))"
    by (simp only: ls) (simp add: fl_sub_def)
  from e have "0 < ?s" "?s < 1"
    by (simp_all add: add_pos_pos)
  then have "0 < 1 * ?s * (1 - ?s)"
    by simp
  then have ne: "1 * ?s * (1 - ?s) \<noteq> 0"
    by (rule less_imp_neq [THEN not_sym])
  show ?thesis
    unfolding eq fl.inject by (rule ne)
qed

theorem kernel_input_is_masked_swiglu_witness:
  "\<exists>x. kernel_input (fst (forward toy_env (toy_layer ''chunk'' False None) (full 1 2 2 1)
                            None None False None None)) = Some x
        \<and> x = toy_swiglu (linear [[1, 0], [0, 1]] (full 1 2 2 1))
                (tmap (\<lambda>v. fl_sub (Fin 1) (fl_exp v))
                   (tmap fl_logsigmoid (linear [[1, 0], [0, 1]] (full 1 2 2 1))))"
proof -
  let ?self = "toy_layer ''chunk'' False None"
  let ?hs = "full 1 2 2 1"
  let ?call = "forward toy_env ?self ?hs None None False None None"
  let ?pre = "pre_kernel toy_env ?self ?hs None None False None None"
  have "ok (fst ?call)"
    by (simp add: forward_defs toy_defs Let_def split: prod.splits)
  then obtain r c' where fwd: "?call = (Inr r, c')"
    by (cases ?call; cases "fst ?call") auto
  have "ok ?pre"
    by (simp add: forward_defs toy_defs Let_def)
  then obtain loc where pre: "?pre = Inr loc"
    by (cases ?pre) auto
  have nc: "\<not> use_short_conv ?self" and sw: "swiglu toy_env = toy_swiglu"
    and ip: "i_proj toy_env = linear [[1, 0], [0, 1]]"
    and fp: "f_proj toy_env = linear [[1, 0], [0, 1]]"
    by (simp_all add: toy_defs)
  from kernel_input_is_masked_swiglu [OF fwd pre] nc
  have x: "k_x (r_kernel r)
             = swiglu toy_env (l_i_raw loc) (tmap (\<lambda>v. fl_sub (Fin 1) (fl_exp v)) (l_f loc))"
    and raw: "l_i_raw loc = i_proj toy_env ?hs" "l_f_raw loc = f_proj toy_env ?hs"
    and gate: "compose_gate None (layer_idx ?self) (l_f_raw loc) = Inr (l_f loc)"
    by blast+
  from gate have "l_f loc = tmap fl_logsigmoid (l_f_raw loc)"
    by (simp add: compose_gate_def)
  with x raw sw ip fp fwd show ?thesis
    by (simp add: kernel_input_def)
qed

text \<open>
  C5 as it is written fails: with a mask that pads the only step, the kernel receives
  0 where \<^verbatim>\<open>swiglu(i_raw, 1 - exp(f))\<close> is not 0.
\<close>

theorem kernel_input_is_swiglu_counterexample:
  "ok (pre_kernel toy_env (toy_layer ''chunk'' False None) (full 1 1 2 1)
         (Some (mask_of [[0]])) None False None None)
   \<and> ok (fst (forward toy_env (toy_layer ''chunk'' False None) (full 1 1 2 1)
               (Some (mask_of [[0]])) None False None None))
   \<and> el (k_x (r_kernel (projr (fst (forward toy_env (toy_layer ''chunk'' False None)
            (full 1 1 2 1) (Some (mask_of [[0]])) None False None None))))) 0 0 0 = Fin 0
   \<and> el (swiglu toy_env
           (l_i_raw (projr (pre_kernel toy_env (toy_layer ''chunk'' False None) (full 1 1 2 1)
                       (Some (mask_of [[0]])) None False None None)))
           (tmap (\<lambda>v. fl_sub (Fin 1) (fl_exp v))
              (l_f (projr (pre_kernel toy_env (toy_layer ''chunk'' False None) (full 1 1 2 1)
                       (Some (mask_of [[0]])) None False None None))))) 0 0 0 \<noteq> Fin 0"
proof -
  let ?self = "toy_layer ''chunk'' False None"
  let ?hs = "full 1 1 2 1"
  let ?m = "mask_of [[0]]"
  let ?call = "forward toy_env ?self ?hs (Some ?m) None False None None"
  let ?pre = "pre_kernel toy_env ?self ?hs (Some ?m) None False None None"
  let ?a = "toy_swiglu (linear [[1, 0], [0, 1]] ?hs)
              (tmap (\<lambda>v. fl_sub (Fin 1) (fl_exp v))
                 (tmap fl_logsigmoid (linear [[1, 0], [0, 1]] ?hs)))"
  have a0: "el ?a 0 0 0 = fl_mul (fl_mul (Fin 1) (fl_sigmoid (Fin 1)))
                            (fl_sub (Fin 1) (fl_exp (fl_logsigmoid (Fin 1))))"
    by (simp add: toy_swiglu_def tmap_def toy_el_linear)
  have pre: "?pre = Inr \<lparr>l_mode = ''chunk'', l_last_state = None, l_conv_state_i = None,
      l_conv_state_f = None, l_i_raw = linear [[1, 0], [0, 1]] ?hs,
      l_f_raw = linear [[1, 0], [0, 1]] ?hs,
      l_f = tmap fl_logsigmoid (linear [[1, 0], [0, 1]] ?hs),
      l_i = ?a\<lparr>el := \<lambda>b t c. fl_mul (el ?a b t c) (Fin 0)\<rparr>\<rparr>"
    by (simp add: forward_defs toy_defs mask_defs Let_def)
  have 1: "ok ?pre" by (simp only: pre ok_simps)
  have 2: "ok (fst ?call)"
    by (simp add: forward_defs toy_defs mask_defs Let_def split: prod.splits)
  then obtain r c' where fwd: "?call = (Inr r, c')"
    by (cases ?call; cases "fst ?call") auto
  from forward_kernel_locals(1) [OF fwd pre]
  have "el (k_x (r_kernel r)) 0 0 0 = fl_mul (el ?a 0 0 0) (Fin 0)"
    by simp
  also have "\<dots> = Fin 0"
    unfolding a0 by (simp add: fl_sub_def)
  finally have 3: "el (k_x (r_kernel (projr (fst ?call)))) 0 0 0 = Fin 0"
    using fwd by simp
  have 4: "el (swiglu toy_env (l_i_raw (projr ?pre))
                 (tmap (\<lambda>v. fl_sub (Fin 1) (fl_exp v)) (l_f (projr ?pre)))) 0 0 0 \<noteq> Fin 0"
    unfolding pre using swiglu_one_nonzero a0 by (simp add: toy_env_def)
  from 1 2 3 4 show ?thesis by simp
qed













end
